theory Spec2Isabelle
  imports Main "HOL-Library.Sublist"
begin

section \<open>Strings as the chat components use them\<close>

text \<open>
  The chat component (\<^verbatim>\<open>Chatbot\<close>, lines 180-488 of
  \<^verbatim>\<open>src/components/Profile.tsx\<close>) and the edge function
  (lines 553-693 of the same file) work on JavaScript strings. A string is modelled
  as a \<^typ>\<open>string\<close>, each \<^typ>\<open>char\<close> read as the code unit with the same
  number (U+0000 to U+00FF). On that range \<^verbatim>\<open>String.prototype.toLowerCase\<close>
  moves \<^verbatim>\<open>A-Z\<close> and the capital letters U+00C0-U+00D6 and U+00D8-U+00DE up by 32 and
  leaves every other code unit alone; \<^verbatim>\<open>String.prototype.trim\<close> strips
  TAB, LF, VT, FF, CR, SPACE and NBSP from both ends; and
  \<^verbatim>\<open>String.prototype.includes\<close> is the search for a contiguous substring.
\<close>

definition lowerChar :: "char \<Rightarrow> char" where
  "lowerChar c =
     (let n = (of_char c :: nat) in
      if (65 \<le> n \<and> n \<le> 90) \<or> (192 \<le> n \<and> n \<le> 214) \<or> (216 \<le> n \<and> n \<le> 222)
      then char_of (n + 32) else c)"

definition toLowerCase :: "string \<Rightarrow> string" where
  "toLowerCase s = map lowerChar s"

definition isWhiteSpace :: "char \<Rightarrow> bool" where
  "isWhiteSpace c = ((of_char c :: nat) \<in> {9, 10, 11, 12, 13, 32, 160})"

definition trim :: "string \<Rightarrow> string" where
  "trim s = rev (dropWhile isWhiteSpace (rev (dropWhile isWhiteSpace s)))"

fun includesStr :: "string \<Rightarrow> string \<Rightarrow> bool" where
  "includesStr [] t = (t = [])"
| "includesStr (c # cs) t = (prefix t (c # cs) \<or> includesStr cs t)"

section \<open>The fallback responder of the chat component\<close>

text \<open>
  The canned messages of \<^verbatim>\<open>generateFallbackResponse\<close> in the chat component
  (lines 295-307), one constant per \<^verbatim>\<open>return\<close>, in the order of the source.
\<close>

definition anxiety_response :: string where
  "anxiety_response =
    ''I understand you're feeling anxious. That's a very real experience, and it's brave of you to share it. Try this simple breathing exercise: breathe in for 4 counts, hold for 4, and exhale for 4. What specifically is making you feel anxious today?''"

definition sadness_response :: string where
  "sadness_response =
    ''I hear that you're feeling down. These feelings are valid and you're not alone. Have you been able to talk to anyone close to you about what you're experiencing? What's been weighing on you?''"

definition stress_response :: string where
  "stress_response =
    ''Stress can feel overwhelming. Here are some things that might help: Take short breaks, engage in activities you enjoy, exercise even briefly, and talk to someone you trust. What's been your biggest stressor lately?''"

definition sleep_response :: string where
  "sleep_response =
    ''Sleep difficulties can really impact how you feel overall. Try maintaining a consistent sleep schedule, avoiding screens 30 minutes before bed, and keeping your room cool and dark. Are you dealing with racing thoughts keeping you awake?''"

definition crisis_response :: string where
  "crisis_response =
    ''I'm really glad you reached out. If you're in crisis, please contact emergency services immediately. In the US, you can call 988 (Suicide & Crisis Lifeline) or text 'HELLO' to 741741. These services are available 24/7. You matter.''"

definition gratitude_response :: string where
  "gratitude_response =
    ''You're very welcome. Reaching out and taking care of your mental health is a sign of strength. I'm here whenever you need to talk.''"

definition default_response :: string where
  "default_response =
    ''Thank you for sharing that with me. I'm here to listen and support you. Could you tell me more about what's on your mind?''"

text \<open>
  \<^verbatim>\<open>generateFallbackResponse\<close> (lines 291-309): the message is lower-cased once,
  then the branches are tried from top to bottom.
\<close>

definition generateFallbackResponse :: "string \<Rightarrow> string" where
  "generateFallbackResponse userMessage =
     (let lowerMessage = toLowerCase userMessage in
      if includesStr lowerMessage ''anxious'' \<or> includesStr lowerMessage ''anxiety'' then
        anxiety_response
      else if includesStr lowerMessage ''sad'' \<or> includesStr lowerMessage ''depressed'' then
        sadness_response
      else if includesStr lowerMessage ''stress'' then
        stress_response
      else if includesStr lowerMessage ''sleep'' \<or> includesStr lowerMessage ''insomnia'' then
        sleep_response
      else if includesStr lowerMessage ''help'' \<or> includesStr lowerMessage ''crisis''
              \<or> includesStr lowerMessage ''harm'' \<or> includesStr lowerMessage ''suicid'' then
        crisis_response
      else if includesStr lowerMessage ''thank'' then
        gratitude_response
      else
        default_response)"

section \<open>The fallback responder of the edge function\<close>

text \<open>
  The edge function carries its own \<^verbatim>\<open>generateFallbackResponse\<close> (lines 675-693)
  with longer messages (lines 679-691).
\<close>

definition edge_anxiety_response :: string where
  "edge_anxiety_response =
    ''I understand you're feeling anxious. That's a very real experience, and it's brave of you to share it. Anxiety is a common response our bodies have, and there are effective techniques to manage it. Try this simple breathing exercise: breathe in for 4 counts, hold for 4, and exhale for 4. This can help calm your nervous system. What specifically is making you feel anxious today? I'm here to listen.''"

definition edge_sadness_response :: string where
  "edge_sadness_response =
    ''I hear that you're feeling down, and I'm genuinely glad you reached out. These feelings are valid and you're not alone. Depression can make everything feel heavier, but remember that these feelings can change. Have you been able to talk to anyone close to you about what you're experiencing? Sometimes sharing with friends, family, or a mental health professional can really help. What's been weighing on you?''"

definition edge_stress_response :: string where
  "edge_stress_response =
    ''Stress can feel overwhelming, and I appreciate you opening up about it. Here are some things that might help: Take short breaks throughout your day to breathe and reset. Engage in activities you enjoy, even for 10 minutes. Exercise, even a short walk, can release stress-relieving endorphins. Talk to someone you trust. If stress is affecting your daily life, speaking with a professional could provide great support. What's been your biggest stressor lately?''"

definition edge_sleep_response :: string where
  "edge_sleep_response =
    ''Sleep difficulties can really impact how you feel overall. Here are some science-backed suggestions: Maintain a consistent sleep schedule, avoid screens 30 minutes before bed, keep your room cool and dark, and try relaxation techniques like meditation. If sleep problems persist for weeks, it's worth discussing with a healthcare provider. Are you dealing with racing thoughts, physical restlessness, or something else keeping you awake?''"

definition edge_crisis_response :: string where
  "edge_crisis_response =
    ''I'm really glad you reached out. If you're in crisis or having thoughts of self-harm, please contact emergency services immediately. In the US, you can call 988 (Suicide & Crisis Lifeline) or text 'HELLO' to 741741 (Crisis Text Line). These services are free, confidential, and available 24/7. You matter, and there are people ready to help. Would you like to talk about what's happening?''"

definition edge_gratitude_response :: string where
  "edge_gratitude_response =
    ''You're very welcome. Remember, reaching out and taking care of your mental health is a sign of strength, not weakness. I'm here whenever you need to talk. Don't hesitate to reach out to our community or professional mental health resources as well. How are you feeling right now?''"

definition edge_default_response :: string where
  "edge_default_response =
    ''Thank you for sharing that with me. I'm here to listen and support you on your mental wellness journey. What you're feeling is important. Could you tell me more about what's on your mind? I'm genuinely interested in understanding your situation better.''"

definition edge_generateFallbackResponse :: "string \<Rightarrow> string" where
  "edge_generateFallbackResponse userMessage =
     (let lowerMessage = toLowerCase userMessage in
      if includesStr lowerMessage ''anxious'' \<or> includesStr lowerMessage ''anxiety'' then
        edge_anxiety_response
      else if includesStr lowerMessage ''sad'' \<or> includesStr lowerMessage ''depressed'' then
        edge_sadness_response
      else if includesStr lowerMessage ''stress'' then
        edge_stress_response
      else if includesStr lowerMessage ''sleep'' \<or> includesStr lowerMessage ''insomnia'' then
        edge_sleep_response
      else if includesStr lowerMessage ''help'' \<or> includesStr lowerMessage ''crisis''
              \<or> includesStr lowerMessage ''harm'' \<or> includesStr lowerMessage ''suicid'' then
        edge_crisis_response
      else if includesStr lowerMessage ''thank'' then
        edge_gratitude_response
      else
        edge_default_response)"

section \<open>Claim vocabulary: trigger substrings and categories\<close>

text \<open>
  The trigger substrings of each category, tested on the lower-cased message, and
  the seven categories with the message each responder returns for them.
\<close>

definition hasAnxietyTrigger :: "string \<Rightarrow> bool" where
  "hasAnxietyTrigger m =
     (includesStr (toLowerCase m) ''anxious'' \<or> includesStr (toLowerCase m) ''anxiety'')"

definition hasSadnessTrigger :: "string \<Rightarrow> bool" where
  "hasSadnessTrigger m =
     (includesStr (toLowerCase m) ''sad'' \<or> includesStr (toLowerCase m) ''depressed'')"

definition hasStressTrigger :: "string \<Rightarrow> bool" where
  "hasStressTrigger m = includesStr (toLowerCase m) ''stress''"

definition hasSleepTrigger :: "string \<Rightarrow> bool" where
  "hasSleepTrigger m =
     (includesStr (toLowerCase m) ''sleep'' \<or> includesStr (toLowerCase m) ''insomnia'')"

definition hasCrisisTrigger :: "string \<Rightarrow> bool" where
  "hasCrisisTrigger m =
     (includesStr (toLowerCase m) ''help'' \<or> includesStr (toLowerCase m) ''crisis''
      \<or> includesStr (toLowerCase m) ''harm'' \<or> includesStr (toLowerCase m) ''suicid'')"

definition hasGratitudeTrigger :: "string \<Rightarrow> bool" where
  "hasGratitudeTrigger m = includesStr (toLowerCase m) ''thank''"

definition hasAnyTrigger :: "string \<Rightarrow> bool" where
  "hasAnyTrigger m =
     (hasAnxietyTrigger m \<or> hasSadnessTrigger m \<or> hasStressTrigger m \<or> hasSleepTrigger m
      \<or> hasCrisisTrigger m \<or> hasGratitudeTrigger m)"

datatype category = Crisis | Gratitude | Anxiety | Sadness | Stress | Sleep | Default

fun client_response :: "category \<Rightarrow> string" where
  "client_response Crisis = crisis_response"
| "client_response Gratitude = gratitude_response"
| "client_response Anxiety = anxiety_response"
| "client_response Sadness = sadness_response"
| "client_response Stress = stress_response"
| "client_response Sleep = sleep_response"
| "client_response Default = default_response"

fun edge_response :: "category \<Rightarrow> string" where
  "edge_response Crisis = edge_crisis_response"
| "edge_response Gratitude = edge_gratitude_response"
| "edge_response Anxiety = edge_anxiety_response"
| "edge_response Sadness = edge_sadness_response"
| "edge_response Stress = edge_stress_response"
| "edge_response Sleep = edge_sleep_response"
| "edge_response Default = edge_default_response"

section \<open>The conversation orchestrator\<close>

subsection \<open>Data\<close>

text \<open>
  \<^verbatim>\<open>ChatSession\<close> and \<^verbatim>\<open>ChatMessage\<close> as declared in
  \<^verbatim>\<open>lib/supabase\<close> (lines 514-529). Timestamps are natural numbers
  (instants of the database clock); the message \<^verbatim>\<open>id\<close> is the field
  \<open>msg_id\<close>.
\<close>

type_synonym uuid = string

record ChatSession =
  s_id :: uuid
  s_user_id :: uuid
  s_title :: string
  s_created_at :: nat
  s_updated_at :: nat

record ChatMessage =
  msg_id :: nat
  session_id :: uuid
  user_id :: uuid
  message :: string
  is_bot :: bool
  created_at :: nat

text \<open>
  The state of the \<^verbatim>\<open>Chatbot\<close> component (lines 185-191): the signed-in user
  of \<^verbatim>\<open>useAuth\<close> (its id) and the \<^verbatim>\<open>useState\<close> cells.
\<close>

record Chatbot =
  user :: "uuid option"
  sessions :: "ChatSession list"
  currentSession :: "ChatSession option"
  messages :: "ChatMessage list"
  input :: string
  loading :: bool
  apiError :: string

text \<open>
  The table \<^verbatim>\<open>chat_messages\<close> of the migration (lines 130-137): rows in
  insertion order, \<^verbatim>\<open>id\<close> and \<^verbatim>\<open>created_at\<close> filled by their
  defaults (a fresh id, the clock's \<^verbatim>\<open>now()\<close>).
\<close>

record Database =
  chat_messages :: "ChatMessage list"
  next_id :: nat
  clock :: nat

definition insertMessage :: "uuid \<Rightarrow> uuid \<Rightarrow> string \<Rightarrow> bool \<Rightarrow> Database \<Rightarrow> Database" where
  "insertMessage sid uid msg bot_flag d =
     d\<lparr>chat_messages := chat_messages d @
          [\<lparr>msg_id = next_id d, session_id = sid, user_id = uid, message = msg,
            is_bot = bot_flag, created_at = clock d\<rparr>],
       next_id := Suc (next_id d)\<rparr>"

definition elapse :: "nat \<Rightarrow> Database \<Rightarrow> Database" where
  "elapse t d = d\<lparr>clock := clock d + t\<rparr>"

text \<open>
  The query of \<^verbatim>\<open>loadMessages\<close> (lines 229-233): the rows of one session,
  ordered by \<^verbatim>\<open>created_at\<close> ascending.
\<close>

definition selectMessages :: "Database \<Rightarrow> uuid \<Rightarrow> ChatMessage list" where
  "selectMessages d sid =
     sort_key created_at (filter (\<lambda>m. session_id m = sid) (chat_messages d))"

text \<open>
  What \<^verbatim>\<open>fetch\<close> can come back with: a rejected promise, or a response with a
  status and a body. The body either fails to parse as JSON, parses to
  \<^verbatim>\<open>null\<close>, or parses to a value whose \<^verbatim>\<open>response\<close> property is absent
  (\<open>None\<close>; so for every value that is not an object) or a string, as the
  \<^verbatim>\<open>ChatResponse\<close> interface of the edge function (lines 564-567) declares it.
\<close>

datatype Body = NotJson | JsonNull | JsonValue "string option"

datatype FetchResult = TransportError | HttpResponse nat Body

record Request =
  req_message :: string
  req_conversationHistory :: "(string \<times> string) list"

definition ok :: "nat \<Rightarrow> bool" where
  "ok status = (200 \<le> status \<and> status \<le> 299)"

text \<open>
  What the world outside the component does during one turn: whether each insert
  and each reload reports an error, what \<^verbatim>\<open>fetch\<close> returns for a request, and
  how much time passes before each insert.
\<close>

record Env =
  userInsertError :: bool
  firstLoadError :: bool
  fetch :: "Request \<Rightarrow> FetchResult"
  botInsertError :: bool
  secondLoadError :: bool
  delayUserInsert :: nat
  delayBotInsert :: nat

text \<open>
  The component, the database and the requests sent to the edge function so far.
\<close>

record System =
  ui :: Chatbot
  db :: Database
  calls :: "Request list"

subsection \<open>Operations\<close>

text \<open>\<^verbatim>\<open>loadMessages\<close> (lines 228-238).\<close>

definition loadMessages :: "bool \<Rightarrow> Database \<Rightarrow> uuid \<Rightarrow> Chatbot \<Rightarrow> Chatbot" where
  "loadMessages err d sessionId st =
     (if \<not> err then st\<lparr>messages := selectMessages d sessionId\<rparr> else st)"

text \<open>
  \<^verbatim>\<open>callChatbotAPI\<close> (lines 256-289). The result is the reply and whether the
  \<^verbatim>\<open>catch\<close> branch ran (which sets \<^verbatim>\<open>apiError\<close>). The text of line 283
  replaces a falsy \<^verbatim>\<open>data.response\<close>.
\<close>

definition missing_reply_text :: string where
  "missing_reply_text =
    ''Thank you for sharing. I'm here to listen.''"

definition conversationHistory :: "ChatMessage list \<Rightarrow> (string \<times> string) list" where
  "conversationHistory ms =
     map (\<lambda>m. (if is_bot m then ''assistant'' else ''user'', message m)) ms"

definition chatRequest :: "ChatMessage list \<Rightarrow> string \<Rightarrow> Request" where
  "chatRequest ms userMessage =
     \<lparr>req_message = userMessage, req_conversationHistory = conversationHistory ms\<rparr>"

definition callChatbotAPI ::
  "(Request \<Rightarrow> FetchResult) \<Rightarrow> ChatMessage list \<Rightarrow> string \<Rightarrow> string \<times> bool" where
  "callChatbotAPI fetchFn ms userMessage =
     (case fetchFn (chatRequest ms userMessage) of
        TransportError \<Rightarrow> (generateFallbackResponse userMessage, True)
      | HttpResponse status body \<Rightarrow>
          if \<not> ok status then (generateFallbackResponse userMessage, True)
          else (case body of
                  NotJson \<Rightarrow> (generateFallbackResponse userMessage, True)
                | JsonNull \<Rightarrow> (generateFallbackResponse userMessage, True)
                | JsonValue None \<Rightarrow> (missing_reply_text, False)
                | JsonValue (Some r) \<Rightarrow>
                    (if r = [] then missing_reply_text else r, False)))"

text \<open>
  \<^verbatim>\<open>sendMessage\<close> (lines 311-356). The function reads \<^verbatim>\<open>input\<close>,
  \<^verbatim>\<open>currentSession\<close>, \<^verbatim>\<open>user\<close>, \<^verbatim>\<open>loading\<close> and (inside
  \<^verbatim>\<open>callChatbotAPI\<close>) \<^verbatim>\<open>messages\<close> from the render it was created in,
  so the history sent is the one from before the turn.
\<close>

definition connection_issue_text :: string where
  "connection_issue_text = ''Connection issue. Using fallback response.''"

definition sendMessage :: "Env \<Rightarrow> System \<Rightarrow> System" where
  "sendMessage env w =
     (let st = ui w in
      case (currentSession st, user st) of
        (Some cs, Some uid) \<Rightarrow>
          if trim (input st) = [] \<or> loading st then w
          else
            let st1 = st\<lparr>loading := True, apiError := [], input := []\<rparr>;
                userMessage = trim (input st);
                d1 = elapse (delayUserInsert env) (db w)
            in if userInsertError env then
                 w\<lparr>ui := st1\<lparr>loading := False\<rparr>, db := d1\<rparr>
               else
                 let d2 = insertMessage (s_id cs) uid userMessage False d1;
                     st2 = loadMessages (firstLoadError env) d2 (s_id cs) st1;
                     (botResponse, caught) = callChatbotAPI (fetch env) (messages st) userMessage;
                     st3 = (if caught then st2\<lparr>apiError := connection_issue_text\<rparr> else st2);
                     log = calls w @ [chatRequest (messages st) userMessage];
                     d3 = elapse (delayBotInsert env) d2
                 in if botInsertError env then
                      \<lparr>ui = st3\<lparr>loading := False\<rparr>, db = d3, calls = log\<rparr>
                    else
                      let d4 = insertMessage (s_id cs) uid botResponse True d3;
                          st4 = loadMessages (secondLoadError env) d4 (s_id cs) st3
                      in \<lparr>ui = st4\<lparr>loading := False\<rparr>, db = d4, calls = log\<rparr>
      | _ \<Rightarrow> w)"

subsection \<open>Turns in flight and remounted components\<close>

text \<open>
  \<^verbatim>\<open>sendMessage\<close> is an \<^verbatim>\<open>async\<close> function: it gives control back at
  each \<^verbatim>\<open>await\<close>. The two definitions below cut it at the \<^verbatim>\<open>await\<close> of
  line 338, where the request has been sent and the answer is outstanding. What
  the rest of the function needs from its closure is kept in a \<open>Pending\<close>
  record: the session, the user, the trimmed text and the \<^verbatim>\<open>messages\<close> of the
  render the function was created in.
\<close>

record Pending =
  p_session :: ChatSession
  p_user :: uuid
  p_userMessage :: string
  p_messages :: "ChatMessage list"


text \<open>
  Lines 338-355, from the answer of \<^verbatim>\<open>fetch\<close> on. The system it runs in is the
  one of that later moment: the table may have grown in between.
\<close>

definition sendMessage_finish :: "Env \<Rightarrow> Pending \<Rightarrow> System \<Rightarrow> System" where
  "sendMessage_finish env p w =
     (let (botResponse, caught) = callChatbotAPI (fetch env) (p_messages p) (p_userMessage p);
          st3 = (if caught then (ui w)\<lparr>apiError := connection_issue_text\<rparr> else ui w);
          d3 = elapse (delayBotInsert env) (db w)
      in if botInsertError env then
           w\<lparr>ui := st3\<lparr>loading := False\<rparr>, db := d3\<rparr>
         else
           let d4 = insertMessage (s_id (p_session p)) (p_user p) botResponse True d3;
               st4 = loadMessages (secondLoadError env) d4 (s_id (p_session p)) st3
           in w\<lparr>ui := st4\<lparr>loading := False\<rparr>, db := d4\<rparr>)"





subsection \<open>Vocabulary of the claims about the orchestrator\<close>

text \<open>
  The category both responders pick, read off their common chain of tests
  (lines 294-308 and 678-692).
\<close>

definition selectCategory :: "string \<Rightarrow> category" where
  "selectCategory m =
     (if hasAnxietyTrigger m then Anxiety
      else if hasSadnessTrigger m then Sadness
      else if hasStressTrigger m then Stress
      else if hasSleepTrigger m then Sleep
      else if hasCrisisTrigger m then Crisis
      else if hasGratitudeTrigger m then Gratitude
      else Default)"

text \<open>A submission passes the guard of line 312.\<close>

definition accepted :: "System \<Rightarrow> bool" where
  "accepted w =
     (trim (input (ui w)) \<noteq> [] \<and> currentSession (ui w) \<noteq> None \<and> user (ui w) \<noteq> None
      \<and> \<not> loading (ui w))"

text \<open>
  The outcomes of \<^verbatim>\<open>fetch\<close> that end in the \<^verbatim>\<open>catch\<close> of
  \<^verbatim>\<open>callChatbotAPI\<close>: the promise rejects, line 279 throws on a status outside
  200-299, \<^verbatim>\<open>response.json()\<close> rejects, or reading \<^verbatim>\<open>data.response\<close> of
  \<^verbatim>\<open>null\<close> throws.
\<close>

fun thrown :: "FetchResult \<Rightarrow> bool" where
  "thrown TransportError = True"
| "thrown (HttpResponse status body) = (\<not> ok status \<or> body = NotJson \<or> body = JsonNull)"

text \<open>A small system and environment to run the operations on.\<close>

definition example_session :: ChatSession where
  "example_session =
     \<lparr>s_id = ''s1'', s_user_id = ''u1'', s_title = ''New Chat'', s_created_at = 0,
      s_updated_at = 0\<rparr>"

definition example_system :: System where
  "example_system =
     \<lparr>ui = \<lparr>user = Some ''u1'', sessions = [example_session],
            currentSession = Some example_session, messages = [],
            input = '' I feel anxious '', loading = False, apiError = []\<rparr>,
      db = \<lparr>chat_messages = [], next_id = 0, clock = 5\<rparr>,
      calls = []\<rparr>"

definition example_env :: "bool \<Rightarrow> FetchResult \<Rightarrow> Env" where
  "example_env insertFails r =
     \<lparr>userInsertError = insertFails, firstLoadError = False, fetch = (\<lambda>_. r),
      botInsertError = False, secondLoadError = False, delayUserInsert = 1,
      delayBotInsert = 2\<rparr>"









definition earlier_message :: ChatMessage where
  "earlier_message =
     \<lparr>msg_id = 0, session_id = ''s1'', user_id = ''u1'', message = ''I cannot sleep'',
      is_bot = False, created_at = 1\<rparr>"

section \<open>Properties of the fallback responders\<close>

lemmas trigger_defs =
  hasAnxietyTrigger_def hasSadnessTrigger_def hasStressTrigger_def hasSleepTrigger_def
  hasCrisisTrigger_def hasGratitudeTrigger_def

lemmas client_text_defs =
  anxiety_response_def sadness_response_def stress_response_def sleep_response_def
  crisis_response_def gratitude_response_def default_response_def

lemmas edge_text_defs =
  edge_anxiety_response_def edge_sadness_response_def edge_stress_response_def
  edge_sleep_response_def edge_crisis_response_def edge_gratitude_response_def
  edge_default_response_def

lemma client_response_nonempty: "client_response c \<noteq> []"
  by (cases c) (simp_all add: client_text_defs)

lemma edge_response_nonempty: "edge_response c \<noteq> []"
  by (cases c) (simp_all add: edge_text_defs)

lemma client_selects: "generateFallbackResponse m = client_response (selectCategory m)"
  by (simp add: generateFallbackResponse_def selectCategory_def trigger_defs Let_def)

lemma edge_selects: "edge_generateFallbackResponse m = edge_response (selectCategory m)"
  by (simp add: edge_generateFallbackResponse_def selectCategory_def trigger_defs Let_def)

lemma client_response_inj: "inj client_response"
proof (rule injI)
  fix c d
  assume "client_response c = client_response d"
  then show "c = d"
    by (cases c; cases d) (simp_all add: client_text_defs)
qed

lemma edge_response_inj: "inj edge_response"
proof (rule injI)
  fix c d
  assume "edge_response c = edge_response d"
  then show "c = d"
    by (cases c; cases d) (simp_all add: edge_text_defs)
qed

text \<open>
  What the chain does give a crisis message: with a crisis trigger and none of the
  four tests placed before it, both responders return their crisis text, and
  that text names the 988 line.
\<close>

lemma crisis_response_without_mood_trigger:
  assumes "hasCrisisTrigger m"
    and "\<not> hasAnxietyTrigger m" and "\<not> hasSadnessTrigger m"
    and "\<not> hasStressTrigger m" and "\<not> hasSleepTrigger m"
  shows "generateFallbackResponse m = crisis_response"
    and "edge_generateFallbackResponse m = edge_crisis_response"
  using assms by (simp_all add: client_selects edge_selects selectCategory_def)

lemma crisis_responses_name_988:
  "includesStr crisis_response ''988'' \<and> includesStr edge_crisis_response ''988''"
  by code_simp

text \<open>
  Claim C1 (crisis precedence: a message with a crisis trigger and a trigger of
  another category gets the crisis response). The chain tests anxiety, sadness,
  stress and sleep before the crisis substrings, so the claim fails on the code:
  the message below contains "harm" and "anxious", and both responders answer
  with the anxiety text, not the crisis text.
\<close>

theorem crisis_loses_to_anxiety:
  "hasCrisisTrigger ''I feel anxious and I want to harm myself''
   \<and> hasAnxietyTrigger ''I feel anxious and I want to harm myself''
   \<and> generateFallbackResponse ''I feel anxious and I want to harm myself'' = anxiety_response
   \<and> generateFallbackResponse ''I feel anxious and I want to harm myself'' \<noteq> crisis_response
   \<and> edge_generateFallbackResponse ''I feel anxious and I want to harm myself'' = edge_anxiety_response
   \<and> edge_generateFallbackResponse ''I feel anxious and I want to harm myself'' \<noteq> edge_crisis_response"
  by code_simp

text \<open>
  Claim C2 (crisis-line referral: whenever the message contains a crisis trigger,
  the fallback output contains the 988 / crisis-line contact text). The same order
  of tests breaks it: the message below contains "suicid" and "depressed", both
  responders answer with the sadness text, and that text names neither 988 nor
  741741 nor any crisis line.
\<close>

theorem crisis_referral_absent_after_sadness:
  "hasCrisisTrigger ''I am so depressed, I think about suicide''
   \<and> generateFallbackResponse ''I am so depressed, I think about suicide'' = sadness_response
   \<and> \<not> includesStr (generateFallbackResponse ''I am so depressed, I think about suicide'') ''988''
   \<and> \<not> includesStr (generateFallbackResponse ''I am so depressed, I think about suicide'') ''741741''
   \<and> \<not> includesStr (toLowerCase (generateFallbackResponse ''I am so depressed, I think about suicide'')) ''crisis''
   \<and> edge_generateFallbackResponse ''I am so depressed, I think about suicide'' = edge_sadness_response
   \<and> \<not> includesStr (edge_generateFallbackResponse ''I am so depressed, I think about suicide'') ''988''
   \<and> \<not> includesStr (edge_generateFallbackResponse ''I am so depressed, I think about suicide'') ''741741''
   \<and> \<not> includesStr (toLowerCase (edge_generateFallbackResponse ''I am so depressed, I think about suicide'')) ''crisis''"
  by code_simp

text \<open>
  Claim C5 as stated (a message with "thank" and an anxiety trigger but no crisis
  trigger gets the gratitude response) fails: the spec's own example contains
  "thank" and "anxious", no crisis trigger, and is not answered with the gratitude
  text.
\<close>

theorem gratitude_loses_to_anxiety:
  "hasGratitudeTrigger ''thanks, I've been anxious''
   \<and> hasAnxietyTrigger ''thanks, I've been anxious''
   \<and> \<not> hasCrisisTrigger ''thanks, I've been anxious''
   \<and> generateFallbackResponse ''thanks, I've been anxious'' \<noteq> gratitude_response"
  by code_simp

text \<open>
  Claim C5, amended: for every message containing "thank" and an anxiety trigger
  ("anxious" or "anxiety") but no crisis trigger, both responders return the
  anxiety category's canned response; the anxiety test is the first of the chain.
\<close>

theorem anxiety_before_gratitude:
  "hasGratitudeTrigger m \<Longrightarrow> hasAnxietyTrigger m \<Longrightarrow> \<not> hasCrisisTrigger m \<Longrightarrow>
   generateFallbackResponse m = anxiety_response
   \<and> edge_generateFallbackResponse m = edge_anxiety_response"
  by (simp add: client_selects edge_selects selectCategory_def)

theorem anxiety_before_gratitude_witness:
  "hasGratitudeTrigger ''thanks, I've been anxious''
   \<and> hasAnxietyTrigger ''thanks, I've been anxious''
   \<and> \<not> hasCrisisTrigger ''thanks, I've been anxious''
   \<and> generateFallbackResponse ''thanks, I've been anxious'' = anxiety_response
   \<and> edge_generateFallbackResponse ''thanks, I've been anxious'' = edge_anxiety_response"
proof -
  have a: "hasGratitudeTrigger ''thanks, I've been anxious''" by code_simp
  have b: "hasAnxietyTrigger ''thanks, I've been anxious''" by code_simp
  have c: "\<not> hasCrisisTrigger ''thanks, I've been anxious''" by code_simp
  from anxiety_before_gratitude [OF a b c] a b c show ?thesis by simp
qed

text \<open>
  Claim C8 (totality): for every message, each responder returns a non-empty
  string (the functions are total, nothing in them can throw), and when no trigger
  substring occurs in the lower-cased message the result is the generic default
  prompt.
\<close>

theorem generateFallbackResponse_total:
  "generateFallbackResponse m \<noteq> [] \<and> edge_generateFallbackResponse m \<noteq> []
   \<and> (\<not> hasAnyTrigger m \<longrightarrow>
        generateFallbackResponse m = default_response
        \<and> edge_generateFallbackResponse m = edge_default_response)"
  by (simp add: client_selects edge_selects client_response_nonempty edge_response_nonempty
      hasAnyTrigger_def selectCategory_def)

theorem generateFallbackResponse_total_witness:
  "\<not> hasAnyTrigger ''hello there''
   \<and> generateFallbackResponse ''hello there'' = default_response
   \<and> generateFallbackResponse ''hello there'' \<noteq> []"
proof -
  have a: "\<not> hasAnyTrigger ''hello there''" by code_simp
  from generateFallbackResponse_total [of "''hello there''"] a show ?thesis by blast
qed

text \<open>
  Claim C10 (the two responders agree on the category): for every message the
  responder of the chat component and the responder of the edge function return
  the texts of one and the same category, the one their common chain of tests
  selects; the texts of different categories differ within each responder, so the
  category of a response is determined.
\<close>

theorem responders_select_same_category:
  "generateFallbackResponse m = client_response (selectCategory m)
   \<and> edge_generateFallbackResponse m = edge_response (selectCategory m)
   \<and> inj client_response \<and> inj edge_response"
  using client_selects edge_selects client_response_inj edge_response_inj by simp

section \<open>Properties of the orchestrator\<close>




lemma sendMessage_finish_lowers_loading:
  "\<not> loading (ui (sendMessage_finish env p w))"
  by (simp add: sendMessage_finish_def Let_def loadMessages_def split: prod.splits)




text \<open>
  Claim C3 as stated (when persisting the user message fails, the turn aborts, no
  assistant message is generated and the typed input is not cleared) fails in its
  last part: line 317 empties the input before the insert of lines 326-328, and
  the error branch of lines 330-334 does not put the text back.
\<close>

theorem sendMessage_insert_failure_clears_input:
  "accepted example_system
   \<and> userInsertError (example_env True TransportError)
   \<and> input (ui example_system) = '' I feel anxious ''
   \<and> input (ui (sendMessage (example_env True TransportError) example_system)) = []"
  by code_simp

text \<open>
  Claim C3, amended: if, during \<^verbatim>\<open>sendMessage\<close>, persisting the user message
  fails, the turn aborts with no assistant message generated: no row is added, no
  request is sent to the remote assistant, the transcript and the error banner
  are untouched and the \<^verbatim>\<open>loading\<close> flag is lowered again; the input field,
  emptied before the insert, stays empty.
\<close>

theorem sendMessage_user_insert_failure_aborts:
  "accepted w \<Longrightarrow> userInsertError env \<Longrightarrow>
   chat_messages (db (sendMessage env w)) = chat_messages (db w)
   \<and> calls (sendMessage env w) = calls w
   \<and> messages (ui (sendMessage env w)) = messages (ui w)
   \<and> apiError (ui (sendMessage env w)) = []
   \<and> \<not> loading (ui (sendMessage env w))
   \<and> input (ui (sendMessage env w)) = []"
  by (auto simp: accepted_def sendMessage_def Let_def elapse_def split: option.splits)

theorem sendMessage_user_insert_failure_aborts_witness:
  "accepted example_system
   \<and> userInsertError (example_env True TransportError)
   \<and> chat_messages (db (sendMessage (example_env True TransportError) example_system)) = []
   \<and> calls (sendMessage (example_env True TransportError) example_system) = []
   \<and> \<not> loading (ui (sendMessage (example_env True TransportError) example_system))
   \<and> input (ui (sendMessage (example_env True TransportError) example_system)) = []"
proof -
  have a: "accepted example_system"
    by code_simp
  have b: "userInsertError (example_env True TransportError)"
    by (simp add: example_env_def)
  have c: "chat_messages (db example_system) = [] \<and> calls example_system = []"
    by (simp add: example_system_def)
  from sendMessage_user_insert_failure_aborts [OF a b] a b c show ?thesis
    by simp
qed

text \<open>
  Claim C4 as stated (on every failure of the remote call, a 2xx response without
  a usable reply field included, the reply is the fallback responder's answer to
  the user message) fails for the last kind of failure: with status 200 and a
  JSON body that has no \<^verbatim>\<open>response\<close> property, line 283 returns its own fixed
  sentence, which is not what the fallback responder answers to the message.
\<close>

theorem callChatbotAPI_missing_reply_not_fallback:
  "ok 200
   \<and> callChatbotAPI (\<lambda>_. HttpResponse 200 (JsonValue None)) [] ''I feel anxious''
       = (missing_reply_text, False)
   \<and> missing_reply_text \<noteq> generateFallbackResponse ''I feel anxious''"
  by code_simp

text \<open>
  Claim C4, amended: whenever the remote call fails by a transport error, a
  non-success HTTP status, or a 2xx response whose body is not JSON or is
  \<^verbatim>\<open>null\<close>, \<^verbatim>\<open>callChatbotAPI\<close> produces the reply by applying the
  fallback responder to the original user message only (and raises the error
  banner); for a 2xx response whose JSON body has no \<^verbatim>\<open>response\<close> property or
  an empty one, the reply is the fixed sentence of line 283.
\<close>

theorem callChatbotAPI_failure_cases:
  "(thrown (fetchFn (chatRequest ms m)) \<longrightarrow>
      callChatbotAPI fetchFn ms m = (generateFallbackResponse m, True))
   \<and> (fetchFn (chatRequest ms m) = HttpResponse status (JsonValue r) \<and> ok status
        \<and> (r = None \<or> r = Some []) \<longrightarrow>
      callChatbotAPI fetchFn ms m = (missing_reply_text, False))"
  by (auto simp: callChatbotAPI_def split: FetchResult.splits Body.splits option.splits)

theorem callChatbotAPI_failure_cases_witness:
  "callChatbotAPI (\<lambda>_. TransportError) [] ''I feel anxious'' = (anxiety_response, True)
   \<and> callChatbotAPI (\<lambda>_. HttpResponse 500 (JsonValue (Some ''boom''))) [] ''I feel anxious''
       = (anxiety_response, True)
   \<and> callChatbotAPI (\<lambda>_. HttpResponse 200 NotJson) [] ''I feel anxious''
       = (anxiety_response, True)
   \<and> callChatbotAPI (\<lambda>_. HttpResponse 200 (JsonValue None)) [] ''I feel anxious''
       = (missing_reply_text, False)"
proof -
  have g: "generateFallbackResponse ''I feel anxious'' = anxiety_response"
    by code_simp
  have a: "thrown ((\<lambda>_. TransportError) (chatRequest [] ''I feel anxious''))"
    by simp
  have b: "thrown ((\<lambda>_. HttpResponse 500 (JsonValue (Some ''boom'')))
             (chatRequest [] ''I feel anxious''))"
    by (simp add: ok_def)
  have c: "thrown ((\<lambda>_. HttpResponse 200 NotJson) (chatRequest [] ''I feel anxious''))"
    by simp
  have d: "(\<lambda>_. HttpResponse 200 (JsonValue None)) (chatRequest [] ''I feel anxious'')
             = HttpResponse 200 (JsonValue None)
           \<and> ok 200 \<and> (None = (None :: string option) \<or> None = Some [])"
    by (simp add: ok_def)
  show ?thesis
    using a b c d g
      callChatbotAPI_failure_cases [of "\<lambda>_. TransportError" "[]" "''I feel anxious''"]
      callChatbotAPI_failure_cases
        [of "\<lambda>_. HttpResponse 500 (JsonValue (Some ''boom''))" "[]" "''I feel anxious''"]
      callChatbotAPI_failure_cases [of "\<lambda>_. HttpResponse 200 NotJson" "[]" "''I feel anxious''"]
      callChatbotAPI_failure_cases
        [of "\<lambda>_. HttpResponse 200 (JsonValue None)" "[]" "''I feel anxious''" 200 None]
    by simp
qed

text \<open>
  Claim C9 (history independence of the fallback): whenever the remote call ends
  in the fallback, the reply is the fallback responder's answer to the user
  message, whatever the conversation history and whatever the way the call
  failed; two histories with the same user message give the same reply. The
  history goes into the request only.
\<close>

theorem fallback_history_independent:
  "thrown (fetchFn1 (chatRequest h1 m)) \<Longrightarrow> thrown (fetchFn2 (chatRequest h2 m)) \<Longrightarrow>
   fst (callChatbotAPI fetchFn1 h1 m) = fst (callChatbotAPI fetchFn2 h2 m)
   \<and> fst (callChatbotAPI fetchFn1 h1 m) = generateFallbackResponse m
   \<and> req_conversationHistory (chatRequest h1 m) = conversationHistory h1"
  by (auto simp: callChatbotAPI_def chatRequest_def
           split: FetchResult.splits Body.splits option.splits)

theorem fallback_history_independent_witness:
  "conversationHistory [] \<noteq> conversationHistory [earlier_message]
   \<and> fst (callChatbotAPI (\<lambda>_. TransportError) [] ''I feel anxious'')
       = fst (callChatbotAPI (\<lambda>_. HttpResponse 503 NotJson) [earlier_message] ''I feel anxious'')
   \<and> fst (callChatbotAPI (\<lambda>_. TransportError) [] ''I feel anxious'')
       = generateFallbackResponse ''I feel anxious''"
proof -
  have a: "thrown ((\<lambda>_. TransportError) (chatRequest [] ''I feel anxious''))"
    by simp
  have b: "thrown ((\<lambda>_. HttpResponse 503 NotJson)
             (chatRequest [earlier_message] ''I feel anxious''))"
    by simp
  have c: "conversationHistory [] \<noteq> conversationHistory [earlier_message]"
    by (simp add: conversationHistory_def)
  show ?thesis
    using a b c
      fallback_history_independent
        [of "\<lambda>_. TransportError" "[]" "''I feel anxious''"
            "\<lambda>_. HttpResponse 503 NotJson" "[earlier_message]"]
    by blast
qed




end
